theory Spec2Isabelle
  imports Complex_Main "HOL-Library.Sublist"
begin

section \<open>The live suggestions panel: data model\<close>

text \<open>
  The component \<^verbatim>\<open>LiveAISuggestions\<close> keeps six pieces of React state and changes them
  only inside event handlers: the four transport callbacks and the two click handlers.
  Every handler runs to completion before the next event, and the buffer is updated with
  functional updaters (\<^verbatim>\<open>setSuggestions(prev => ...)\<close>), so a handler is modelled as a
  function from the state before the event to the state after it, paired with the list
  of effects the handler performs outside the React state (console output, the delayed
  scroll). Rendering, and the scroll that follows every change of the buffer, read the
  state and do not change it; they are not part of the model.
\<close>

datatype delivery = Say | Internal_note | Immediate_response

text \<open>
  \<^verbatim>\<open>interface AISuggestion\<close>. The fields \<^verbatim>\<open>text\<close> and \<^verbatim>\<open>type\<close> are renamed because
  the bare words are reserved; \<^verbatim>\<open>reasoning?\<close> is optional.
\<close>

record AISuggestion =
  suggestion_text :: string
  offer_id :: string
  suggestion_type :: string
  confidence :: real
  deliver_as :: delivery
  reasoning :: "string option"

text \<open>
  A JavaScript slot that holds an object or array, or is \<^verbatim>\<open>undefined\<close> or \<^verbatim>\<open>null\<close>.
  Objects and arrays are always truthy, the empty array included; \<^verbatim>\<open>undefined\<close> and
  \<^verbatim>\<open>null\<close> are falsy.
\<close>

datatype 'a js_slot = Undefined | Null | Defined 'a

fun truthy :: "'a js_slot \<Rightarrow> bool" where
  "truthy Undefined = False"
| "truthy Null = False"
| "truthy (Defined v) = True"

text \<open>The idiom \<^verbatim>\<open>message.suggestions || []\<close>.\<close>

fun or_empty :: "'a list js_slot \<Rightarrow> 'a list" where
  "or_empty Undefined = []"
| "or_empty Null = []"
| "or_empty (Defined xs) = xs"

text \<open>
  Modelled from the spec: the type \<^verbatim>\<open>WebSocketMessage\<close> is imported from
  \<^verbatim>\<open>../hooks/useWebSocket\<close>, which is not among the sources. The spec gives the inbound
  message shape as \<^verbatim>\<open>{ type: string, suggestions?: Suggestion[], callData?: CallContext,
  transcript?: string }\<close>. The call context is opaque to the component (its state slot
  has type \<^verbatim>\<open>any\<close>), so it is a type parameter.
\<close>

record 'c WebSocketMessage =
  msg_type :: string
  msg_suggestions :: "AISuggestion list js_slot"
  msg_callData :: "'c js_slot"
  msg_transcript :: "string js_slot"

datatype connection_status = Connecting | Connected | Disconnected | Error

text \<open>The \<^verbatim>\<open>useState\<close> cells of the component, in the order of their declaration.\<close>

record 'c component_state =
  suggestions :: "AISuggestion list"
  isConnected :: bool
  lastUpdate :: string
  currentCall :: "'c js_slot"
  isLiveStreaming :: bool
  connectionStatus :: connection_status

definition initial_state :: "'c component_state" where
  "initial_state =
     \<lparr>suggestions = [], isConnected = False, lastUpdate = '''', currentCall = Null,
      isLiveStreaming = False, connectionStatus = Connecting\<rparr>"

text \<open>
  What a handler does besides updating the state: a line on the console (the text is the
  ASCII part of the literal in the source, the logged arguments are left out), the
  \<^verbatim>\<open>setTimeout\<close> that scrolls the list to its bottom after the given number of
  milliseconds, and the one call the component makes on the transport,
  \<^verbatim>\<open>wsRef.current?.disconnect()\<close>.
\<close>

datatype effect =
    ConsoleLog string
  | ConsoleError string
  | ScrollToBottomAfter nat
  | TransportDisconnect

fun is_console :: "effect \<Rightarrow> bool" where
  "is_console (ConsoleLog s) = True"
| "is_console (ConsoleError s) = True"
| "is_console (ScrollToBottomAfter ms) = False"
| "is_console TransportDisconnect = False"

section \<open>Array slicing\<close>

text \<open>
  \<^verbatim>\<open>Array.prototype.slice(start)\<close> with the end omitted: a negative start counts from
  the end and is clamped at the first element, a start of zero or more is clamped at the
  length. The argument is an integer here; JavaScript truncates a fractional start
  towards zero first, and its negative zero is the integer zero.
\<close>

definition slice :: "int \<Rightarrow> 'a list \<Rightarrow> 'a list" where
  "slice start xs =
     (let len = int (length xs);
          k = (if start < 0 then max (len + start) 0 else min start len)
      in drop (nat k) xs)"

section \<open>Transport callbacks\<close>

definition onConnect :: "'c component_state \<Rightarrow> 'c component_state \<times> effect list" where
  "onConnect st =
     (st\<lparr>isConnected := True, connectionStatus := Connected\<rparr>,
      [ConsoleLog ''Live AI Suggestions WebSocket connected''])"

definition onDisconnect :: "'c component_state \<Rightarrow> 'c component_state \<times> effect list" where
  "onDisconnect st =
     (st\<lparr>isConnected := False, connectionStatus := Disconnected\<rparr>,
      [ConsoleLog ''Live AI Suggestions WebSocket disconnected''])"

definition onError :: "'c component_state \<Rightarrow> 'c component_state \<times> effect list" where
  "onError st =
     (st\<lparr>connectionStatus := Error\<rparr>,
      [ConsoleError ''Live AI Suggestions WebSocket error:''])"

text \<open>
  \<^verbatim>\<open>wsClient.onMessage\<close>. The cap \<^verbatim>\<open>maxSuggestions\<close> is the value of the prop captured
  when the subscription was set up; \<^verbatim>\<open>now\<close> is the string that
  \<^verbatim>\<open>new Date().toISOString()\<close> returns while the message is handled. The branches are
  tried in the order of the source and the first that matches wins.
\<close>

definition onMessage ::
  "int \<Rightarrow> string \<Rightarrow> 'c WebSocketMessage \<Rightarrow> 'c component_state
     \<Rightarrow> 'c component_state \<times> effect list" where
  "onMessage maxSuggestions now message st =
     (let received = ConsoleLog ''Live AI Suggestions received message:'' in
      if msg_type message = ''suggestions'' \<or> truthy (msg_suggestions message) then
        (let newSuggestions = or_empty (msg_suggestions message);
             combined = suggestions st @ newSuggestions
         in (st\<lparr>suggestions := slice (- maxSuggestions) combined, lastUpdate := now\<rparr>,
             [received, ScrollToBottomAfter 150]))
      else if msg_type message = ''instant_suggestions'' then
        (let instantSuggestions = or_empty (msg_suggestions message);
             combined = suggestions st @ instantSuggestions
         in (st\<lparr>suggestions := slice (- maxSuggestions) combined, lastUpdate := now\<rparr>,
             [received, ConsoleLog ''Instant suggestions received:'',
              ScrollToBottomAfter 150]))
      else if msg_type message = ''call_started'' then
        (st\<lparr>currentCall := msg_callData message, isLiveStreaming := True\<rparr>,
         [received, ConsoleLog ''Call started:''])
      else if msg_type message = ''call_ended'' then
        (st\<lparr>currentCall := Null, isLiveStreaming := False\<rparr>,
         [received, ConsoleLog ''Call ended''])
      else if msg_type message = ''transcript_chunk'' then
        (st, [received, ConsoleLog ''Transcript chunk received:''])
      else (st, [received]))"

text \<open>The cleanup function returned by the subscription effect.\<close>

definition cleanup :: "effect list" where
  "cleanup = [ConsoleLog ''Cleaning up Live AI Suggestions WebSocket'', TransportDisconnect]"

section \<open>Click handlers\<close>

datatype action = Use | Dismiss

fun action_text :: "action \<Rightarrow> string" where
  "action_text Use = ''use''"
| "action_text Dismiss = ''dismiss''"

definition handleSuggestionAction ::
  "AISuggestion \<Rightarrow> action \<Rightarrow> 'c component_state \<Rightarrow> 'c component_state \<times> effect list" where
  "handleSuggestionAction suggestion act st =
     (let logged = ConsoleLog (''Suggestion '' @ action_text act @ '':'') in
      if act = Use then (st, [logged, ConsoleLog ''Using suggestion:''])
      else (st\<lparr>suggestions :=
                 filter (\<lambda>s. offer_id s \<noteq> offer_id suggestion) (suggestions st)\<rparr>,
            [logged]))"

definition clearAllSuggestions :: "'c component_state \<Rightarrow> 'c component_state \<times> effect list" where
  "clearAllSuggestions st = (st\<lparr>suggestions := [], lastUpdate := ''''\<rparr>, [])"

section \<open>Event sequences\<close>

datatype transport_event = Connect | Disconnect | TransportError

fun transport_step :: "transport_event \<Rightarrow> 'c component_state \<Rightarrow> 'c component_state" where
  "transport_step Connect st = fst (onConnect st)"
| "transport_step Disconnect st = fst (onDisconnect st)"
| "transport_step TransportError st = fst (onError st)"

fun run_transport :: "transport_event list \<Rightarrow> 'c component_state \<Rightarrow> 'c component_state" where
  "run_transport [] st = st"
| "run_transport (ev # evs) st = run_transport evs (transport_step ev st)"

text \<open>Messages handled one after the other under one cap, each with its own clock reading.\<close>

fun run_messages ::
  "int \<Rightarrow> (string \<times> 'c WebSocketMessage) list \<Rightarrow> 'c component_state \<Rightarrow> 'c component_state" where
  "run_messages maxSuggestions [] st = st"
| "run_messages maxSuggestions ((now, message) # rest) st =
     run_messages maxSuggestions rest (fst (onMessage maxSuggestions now message st))"

text \<open>Concrete data for the scenarios: a suggestion that is known by its id only.\<close>

definition sug :: "string \<Rightarrow> AISuggestion" where
  "sug i =
     \<lparr>suggestion_text = '''', offer_id = i, suggestion_type = ''agent_response'',
      confidence = 0, deliver_as = Say, reasoning = None\<rparr>"

definition batch :: "string \<Rightarrow> AISuggestion list \<Rightarrow> string WebSocketMessage" where
  "batch t xs =
     \<lparr>msg_type = t, msg_suggestions = Defined xs, msg_callData = Undefined,
      msg_transcript = Undefined\<rparr>"

definition bare :: "string \<Rightarrow> string WebSocketMessage" where
  "bare t =
     \<lparr>msg_type = t, msg_suggestions = Undefined, msg_callData = Undefined,
      msg_transcript = Undefined\<rparr>"

section \<open>Notions used in the properties\<close>

text \<open>The trailing \<open>n\<close> elements of a list, in their order: the \<open>n\<close> most recent arrivals.\<close>

definition last_n :: "nat \<Rightarrow> 'a list \<Rightarrow> 'a list" where
  "last_n n xs = drop (length xs - n) xs"

text \<open>
  The messages that reach one of the two appending branches of \<^verbatim>\<open>onMessage\<close>, and the
  suggestions that a run of messages carries, in arrival order.
\<close>

definition handled_as_suggestions :: "'c WebSocketMessage \<Rightarrow> bool" where
  "handled_as_suggestions message =
     (msg_type message = ''suggestions'' \<or> truthy (msg_suggestions message)
      \<or> msg_type message = ''instant_suggestions'')"

fun payloads :: "(string \<times> 'c WebSocketMessage) list \<Rightarrow> AISuggestion list" where
  "payloads [] = []"
| "payloads ((now, message) # rest) = or_empty (msg_suggestions message) @ payloads rest"

text \<open>
  The transitions of the connection status as the specification lists them:
  connecting to connected, connecting to error, connected to disconnected, and any
  status to error. This definition follows the specification's words, not the code.
\<close>

definition spec_transition :: "connection_status \<Rightarrow> connection_status \<Rightarrow> bool" where
  "spec_transition a b =
     ((a = Connecting \<and> b = Connected) \<or> (a = Connecting \<and> b = Error)
      \<or> (a = Connected \<and> b = Disconnected) \<or> b = Error)"

section \<open>Facts about slicing and runs\<close>

lemma slice_zero: "slice 0 xs = xs"
  by (simp add: slice_def)

lemma slice_neg_last_n: "0 < n \<Longrightarrow> slice (- n) xs = last_n (nat n) xs"
  by (auto simp: slice_def last_n_def Let_def max_def nat_diff_distrib'
      intro: arg_cong2[where f=drop])

lemma length_last_n: "length (last_n n xs) = min n (length xs)"
  by (simp add: last_n_def)

lemma last_n_all: "length xs \<le> n \<Longrightarrow> last_n n xs = xs"
  by (simp add: last_n_def)

lemma last_n_append_last_n: "last_n n (last_n n xs @ ys) = last_n n (xs @ ys)"
proof (cases "length xs \<le> n")
  case True
  then show ?thesis by (simp add: last_n_def)
next
  case False
  then have "length xs + length ys - (length xs - n + n) + (length xs - n)
      = length xs + length ys - n"
    by arith
  with False show ?thesis by (simp add: last_n_def)
qed

lemma onMessage_append_branch:
  "handled_as_suggestions message \<Longrightarrow>
   fst (onMessage cap now message st) =
     st\<lparr>suggestions := slice (- cap) (suggestions st @ or_empty (msg_suggestions message)),
        lastUpdate := now\<rparr>"
  by (auto simp: onMessage_def handled_as_suggestions_def Let_def)

text \<open>A run of suggestion messages touches the buffer and the marker only.\<close>

lemma run_messages_frame:
  "\<forall>(now, message) \<in> set ms. handled_as_suggestions message \<Longrightarrow>
   isLiveStreaming (run_messages cap ms st) = isLiveStreaming st \<and>
   currentCall (run_messages cap ms st) = currentCall st \<and>
   connectionStatus (run_messages cap ms st) = connectionStatus st \<and>
   isConnected (run_messages cap ms st) = isConnected st"
proof (induction ms arbitrary: st)
  case Nil
  show ?case by simp
next
  case (Cons p ms)
  obtain now message where p: "p = (now, message)" by (cases p)
  from Cons.prems p have h: "handled_as_suggestions message"
    and rest: "\<forall>(now, message) \<in> set ms. handled_as_suggestions message" by auto
  show ?case
    using Cons.IH [OF rest, of "fst (onMessage cap now message st)"]
    by (simp add: p onMessage_append_branch [OF h])
qed

text \<open>
  Under a cap of at least one, a non-empty run of suggestion messages leaves in the
  buffer the trailing \<open>cap\<close> elements of everything that was in it or arrived, in arrival
  order; in particular the buffer then holds at most \<open>cap\<close> elements.
\<close>

lemma run_messages_buffer:
  assumes "0 < cap"
    and "\<forall>(now, message) \<in> set ms. handled_as_suggestions message"
  shows "suggestions (run_messages cap ms st) =
     (if ms = [] then suggestions st else last_n (nat cap) (suggestions st @ payloads ms))"
  using assms(2)
proof (induction ms arbitrary: st)
  case Nil
  show ?case by simp
next
  case (Cons p ms)
  obtain now message where p: "p = (now, message)" by (cases p)
  from Cons.prems p have h: "handled_as_suggestions message"
    and rest: "\<forall>(now, message) \<in> set ms. handled_as_suggestions message" by auto
  let ?st1 = "fst (onMessage cap now message st)"
  have b1: "suggestions ?st1 =
      last_n (nat cap) (suggestions st @ or_empty (msg_suggestions message))"
    by (simp add: onMessage_append_branch [OF h] slice_neg_last_n [OF assms(1)])
  show ?case
  proof (cases "ms = []")
    case True
    then show ?thesis by (simp add: p b1)
  next
    case False
    then show ?thesis
      using Cons.IH [OF rest, of ?st1]
      by (simp add: p b1 last_n_append_last_n)
  qed
qed

lemma run_messages_from_empty:
  assumes "0 < cap"
    and "\<forall>(now, message) \<in> set ms. handled_as_suggestions message"
  shows "suggestions (run_messages cap ms initial_state) = last_n (nat cap) (payloads ms)
     \<and> int (length (suggestions (run_messages cap ms initial_state))) \<le> cap"
proof -
  have "suggestions (run_messages cap ms initial_state) = last_n (nat cap) (payloads ms)"
    using run_messages_buffer [OF assms, of initial_state]
    by (cases ms) (simp_all add: initial_state_def last_n_def)
  with assms(1) show ?thesis by (simp add: length_last_n)
qed

lemma run_transport_snoc:
  "run_transport (evs @ [ev]) st = transport_step ev (run_transport evs st)"
  by (induction evs arbitrary: st) simp_all

lemma connectionStatus_step:
  "connectionStatus (transport_step ev st) =
     (case ev of Connect \<Rightarrow> Connected | Disconnect \<Rightarrow> Disconnected
      | TransportError \<Rightarrow> Error)"
  by (cases ev) (simp_all add: onConnect_def onDisconnect_def onError_def)

section \<open>The bounded buffer\<close>

text \<open>
  Claim C1. The buffer is said never to hold more than \<^verbatim>\<open>maxSuggestions\<close> elements after
  a batch was appended and trimmed. With the cap \<open>0\<close> the source computes
  \<^verbatim>\<open>combined.slice(-0)\<close>, which is \<^verbatim>\<open>combined.slice(0)\<close>, the whole array: one batch
  of two suggestions sent to the empty buffer leaves both in the buffer, so its length
  is two and exceeds the cap, where the comment in the source says that only the last
  \<^verbatim>\<open>maxSuggestions\<close> are kept.
\<close>

theorem zero_cap_keeps_everything:
  "suggestions (fst (onMessage 0 ''2024-05-01T10:00:00.000Z''
       (batch ''suggestions'' [sug ''s1'', sug ''s2'']) initial_state))
     = [sug ''s1'', sug ''s2''] \<and>
   \<not> int (length (suggestions (fst (onMessage 0 ''2024-05-01T10:00:00.000Z''
       (batch ''suggestions'' [sug ''s1'', sug ''s2'']) initial_state)))) \<le> 0"
  by (simp add: onMessage_def batch_def initial_state_def slice_def)

text \<open>
  The scenario of the specification, under the default cap: twenty-five suggestions
  \<open>s1\<close> to \<open>s25\<close> arrive in one batch at the empty buffer, and \<open>s5\<close> to \<open>s25\<close> remain
  in that order. For every cap of at least one the general statement is
  \<open>run_messages_from_empty\<close> above.
\<close>

lemma scenario_cap_21_batch_25:
  "suggestions (fst (onMessage 21 now
     (batch ''suggestions'' (map sug
        [''s1'', ''s2'', ''s3'', ''s4'', ''s5'', ''s6'', ''s7'', ''s8'', ''s9'', ''s10'',
         ''s11'', ''s12'', ''s13'', ''s14'', ''s15'', ''s16'', ''s17'', ''s18'', ''s19'',
         ''s20'', ''s21'', ''s22'', ''s23'', ''s24'', ''s25'']))
     initial_state)) =
   map sug
     [''s5'', ''s6'', ''s7'', ''s8'', ''s9'', ''s10'',
      ''s11'', ''s12'', ''s13'', ''s14'', ''s15'', ''s16'', ''s17'', ''s18'', ''s19'',
      ''s20'', ''s21'', ''s22'', ''s23'', ''s24'', ''s25'']"
  by (simp add: onMessage_def batch_def initial_state_def slice_def)

section \<open>Dismiss\<close>

text \<open>
  Claim C2. Dismissing a suggestion with offer id \<open>X\<close> keeps exactly the entries whose
  offer id differs from \<open>X\<close>, in their order: no entry with id \<open>X\<close> remains, the result
  is a subsequence of the buffer before, and its length is the length before minus the
  number of entries with id \<open>X\<close>. In particular, dismissing \<open>a\<close> from a buffer with the
  ids \<open>a\<close>, \<open>b\<close>, \<open>a\<close> leaves the entry with id \<open>b\<close> alone.
\<close>

theorem dismiss_removes_every_match:
  "suggestions (fst (handleSuggestionAction target Dismiss st)) =
     filter (\<lambda>s. offer_id s \<noteq> offer_id target) (suggestions st) \<and>
   (\<forall>s \<in> set (suggestions (fst (handleSuggestionAction target Dismiss st))).
      offer_id s \<noteq> offer_id target) \<and>
   subseq (suggestions (fst (handleSuggestionAction target Dismiss st))) (suggestions st) \<and>
   length (suggestions (fst (handleSuggestionAction target Dismiss st))) =
     length (suggestions st)
       - length (filter (\<lambda>s. offer_id s = offer_id target) (suggestions st)) \<and>
   suggestions (fst (handleSuggestionAction (sug ''a'') Dismiss
       (st\<lparr>suggestions := [sug ''a'', sug ''b'', sug ''a'']\<rparr>))) = [sug ''b'']"
proof -
  have len: "length (filter (\<lambda>s. offer_id s \<noteq> offer_id target) xs) =
      length xs - length (filter (\<lambda>s. offer_id s = offer_id target) xs)" for xs
    using sum_length_filter_compl [of "\<lambda>s. offer_id s = offer_id target" xs] by simp
  show ?thesis
    by (simp add: handleSuggestionAction_def len sug_def)
qed

text \<open>The theorem at a buffer with the ids \<open>a\<close>, \<open>b\<close>, \<open>c\<close>, \<open>a\<close>.\<close>

theorem dismiss_removes_every_match_witness:
  "suggestions (fst (handleSuggestionAction (sug ''a'') Dismiss
       (initial_state\<lparr>suggestions := [sug ''a'', sug ''b'', sug ''c'', sug ''a'']\<rparr>
          :: string component_state)))
     = [sug ''b'', sug ''c''] \<and>
   ''a'' \<notin> set (map offer_id (suggestions (fst (handleSuggestionAction (sug ''a'') Dismiss
       (initial_state\<lparr>suggestions := [sug ''a'', sug ''b'', sug ''c'', sug ''a'']\<rparr>
          :: string component_state)))))"
proof -
  let ?st = "initial_state\<lparr>suggestions := [sug ''a'', sug ''b'', sug ''c'', sug ''a'']\<rparr>
      :: string component_state"
  note t = dismiss_removes_every_match [of "sug ''a''" ?st]
  have kept: "filter (\<lambda>s. offer_id s \<noteq> offer_id (sug ''a'')) (suggestions ?st)
      = [sug ''b'', sug ''c'']"
    by (simp add: sug_def)
  have target: "offer_id (sug ''a'') = ''a''"
    by (simp add: sug_def)
  from t [THEN conjunct1] kept
  have 1: "suggestions (fst (handleSuggestionAction (sug ''a'') Dismiss ?st))
      = [sug ''b'', sug ''c'']"
    by (rule trans)
  from t [THEN conjunct2, THEN conjunct1]
  have "\<forall>s \<in> set (suggestions (fst (handleSuggestionAction (sug ''a'') Dismiss ?st))).
      offer_id s \<noteq> ''a''"
    by (simp only: target)
  then have 2: "''a'' \<notin> set (map offer_id
      (suggestions (fst (handleSuggestionAction (sug ''a'') Dismiss ?st))))"
    by auto
  from 1 2 show ?thesis by (rule conjI)
qed

section \<open>Connection status\<close>

text \<open>
  Claim C3, as the code has it. The three transport callbacks are unguarded: each sets
  the status to the value it reports, whatever the status was. So after any sequence
  of callbacks the status is the one reported by the last callback, and, starting from
  \<open>Connecting\<close>, a transition from \<open>a\<close> to \<open>b\<close> occurs in some sequence exactly when \<open>b\<close>
  is not \<open>Connecting\<close>: every status can be followed by connected, disconnected or
  error, and connecting is never entered again.
\<close>

theorem connectionStatus_follows_last_callback:
  "connectionStatus (run_transport (evs @ [ev]) st) =
     (case ev of Connect \<Rightarrow> Connected | Disconnect \<Rightarrow> Disconnected
      | TransportError \<Rightarrow> Error) \<and>
   ((\<exists>es e. connectionStatus (run_transport es (initial_state :: 'c component_state)) = a \<and>
            connectionStatus (run_transport (es @ [e]) (initial_state :: 'c component_state)) = b)
     = (b \<noteq> Connecting))"
proof -
  let ?i = "initial_state :: 'c component_state"
  have step: "connectionStatus (run_transport (es @ [e]) s) =
     (case e of Connect \<Rightarrow> Connected | Disconnect \<Rightarrow> Disconnected
      | TransportError \<Rightarrow> Error)" for es e and s :: "'d component_state"
    by (simp add: run_transport_snoc connectionStatus_step)
  have never: "connectionStatus (run_transport (es @ [e]) ?i) \<noteq> Connecting" for es e
    by (simp add: step split: transport_event.split)
  have reach: "\<exists>es. connectionStatus (run_transport es ?i) = a"
  proof (cases a)
    case Connecting
    have "connectionStatus (run_transport [] ?i) = Connecting"
      by (simp add: initial_state_def)
    with Connecting show ?thesis by blast
  next
    case Connected
    have "connectionStatus (run_transport ([] @ [Connect]) ?i) = Connected"
      by (simp only: step) simp
    with Connected show ?thesis by blast
  next
    case Disconnected
    have "connectionStatus (run_transport ([] @ [Disconnect]) ?i) = Disconnected"
      by (simp only: step) simp
    with Disconnected show ?thesis by blast
  next
    case Error
    have "connectionStatus (run_transport ([] @ [TransportError]) ?i) = Error"
      by (simp only: step) simp
    with Error show ?thesis by blast
  qed
  have target: "b \<noteq> Connecting \<Longrightarrow> \<exists>e. (case e of Connect \<Rightarrow> Connected
      | Disconnect \<Rightarrow> Disconnected | TransportError \<Rightarrow> Error) = b"
    by (cases b) (auto intro: exI [of _ Connect] exI [of _ Disconnect] exI [of _ TransportError])
  have "(\<exists>es e. connectionStatus (run_transport es ?i) = a \<and>
            connectionStatus (run_transport (es @ [e]) ?i) = b) = (b \<noteq> Connecting)"
  proof
    assume "\<exists>es e. connectionStatus (run_transport es ?i) = a \<and>
            connectionStatus (run_transport (es @ [e]) ?i) = b"
    then show "b \<noteq> Connecting" using never by blast
  next
    assume nb: "b \<noteq> Connecting"
    from reach obtain es where es: "connectionStatus (run_transport es ?i) = a" by blast
    from target [OF nb] obtain e where "(case e of Connect \<Rightarrow> Connected
      | Disconnect \<Rightarrow> Disconnected | TransportError \<Rightarrow> Error) = b" by blast
    then have "connectionStatus (run_transport (es @ [e]) ?i) = b" by (simp only: step)
    with es show "\<exists>es e. connectionStatus (run_transport es ?i) = a \<and>
            connectionStatus (run_transport (es @ [e]) ?i) = b" by blast
  qed
  with step show ?thesis by blast
qed

text \<open>
  The theorem after connect, disconnect, connect, and for the transition from error
  to disconnected.
\<close>

theorem connectionStatus_follows_last_callback_witness:
  "connectionStatus (run_transport ([Connect, Disconnect] @ [Connect])
      (initial_state :: string component_state)) = Connected \<and>
   (\<exists>es e. connectionStatus (run_transport es (initial_state :: string component_state))
              = Error \<and>
            connectionStatus (run_transport (es @ [e]) (initial_state :: string component_state))
              = Disconnected)"
  using connectionStatus_follows_last_callback
    [of "[Connect, Disconnect]" Connect "initial_state :: string component_state"
        Error Disconnected, where ?'c = string]
  by simp

text \<open>
  The transitions the specification lists are not the only ones. After connect and
  disconnect a further connect takes the status from disconnected to connected, and
  after an error a disconnect takes it from error to disconnected; the list has
  neither.
\<close>

theorem connectionStatus_counterexample:
  "connectionStatus (run_transport [Connect, Disconnect]
      (initial_state :: string component_state)) = Disconnected \<and>
   connectionStatus (run_transport [Connect, Disconnect, Connect]
      (initial_state :: string component_state)) = Connected \<and>
   \<not> spec_transition Disconnected Connected \<and>
   connectionStatus (run_transport [TransportError]
      (initial_state :: string component_state)) = Error \<and>
   connectionStatus (run_transport [TransportError, Disconnect]
      (initial_state :: string component_state)) = Disconnected \<and>
   \<not> spec_transition Error Disconnected"
  by (simp add: initial_state_def onConnect_def onDisconnect_def onError_def
      spec_transition_def)

section \<open>Clear-all\<close>

text \<open>
  Claim C6. Whatever the buffer and the last-update marker hold, the clear-all action
  leaves the buffer empty and the marker the empty string, and it does not touch the
  connection status, the connected flag, the live flag or the call context. It performs
  no effect outside the state.
\<close>

theorem clearAllSuggestions_resets:
  "suggestions (fst (clearAllSuggestions st)) = [] \<and>
   lastUpdate (fst (clearAllSuggestions st)) = '''' \<and>
   connectionStatus (fst (clearAllSuggestions st)) = connectionStatus st \<and>
   isConnected (fst (clearAllSuggestions st)) = isConnected st \<and>
   isLiveStreaming (fst (clearAllSuggestions st)) = isLiveStreaming st \<and>
   currentCall (fst (clearAllSuggestions st)) = currentCall st \<and>
   snd (clearAllSuggestions st) = []"
  by (simp add: clearAllSuggestions_def)

section \<open>Call lifecycle messages\<close>

text \<open>
  Claim C4, as the code has it. A \<open>call_started\<close> message that carries no suggestions
  payload sets the live flag and stores the message's call context; any run of
  suggestion messages that follows leaves both as they are; and a \<open>call_ended\<close>
  message that carries no suggestions payload then clears the live flag and sets the
  call context to \<open>null\<close>.
\<close>

theorem call_started_then_call_ended:
  assumes "msg_type started = ''call_started''" and "\<not> truthy (msg_suggestions started)"
    and "msg_type ended = ''call_ended''" and "\<not> truthy (msg_suggestions ended)"
    and "\<forall>(now, message) \<in> set between. handled_as_suggestions message"
  shows "(let s1 = fst (onMessage cap t1 started st);
              s2 = run_messages cap between s1;
              s3 = fst (onMessage cap t3 ended s2)
          in isLiveStreaming s1 \<and> currentCall s1 = msg_callData started \<and>
             isLiveStreaming s2 \<and> currentCall s2 = msg_callData started \<and>
             \<not> isLiveStreaming s3 \<and> currentCall s3 = Null)"
proof -
  let ?s1 = "fst (onMessage cap t1 started st)"
  let ?s2 = "run_messages cap between ?s1"
  let ?s3 = "fst (onMessage cap t3 ended ?s2)"
  have 1: "isLiveStreaming ?s1 \<and> currentCall ?s1 = msg_callData started"
    using assms(1,2) by (simp add: onMessage_def)
  have 2: "isLiveStreaming ?s2 = isLiveStreaming ?s1 \<and> currentCall ?s2 = currentCall ?s1"
    using run_messages_frame [OF assms(5), of cap ?s1] by simp
  have 3: "\<not> isLiveStreaming ?s3 \<and> currentCall ?s3 = Null"
    using assms(3,4) by (simp add: onMessage_def)
  from 1 2 3 show ?thesis by (simp add: Let_def)
qed

text \<open>
  The theorem for a call that starts with the context \<open>CA-1\<close>, receives one batch and
  one instant-suggestions message without payload, and ends.
\<close>

theorem call_started_then_call_ended_witness:
  "(let s1 = fst (onMessage 21 ''2024-05-01T10:00:00.000Z''
                ((bare ''call_started'')\<lparr>msg_callData := Defined ''CA-1''\<rparr>) initial_state);
        s2 = run_messages 21
               [(''2024-05-01T10:00:01.000Z'', batch ''suggestions'' [sug ''s1'']),
                (''2024-05-01T10:00:02.000Z'', bare ''instant_suggestions'')] s1;
        s3 = fst (onMessage 21 ''2024-05-01T10:00:03.000Z'' (bare ''call_ended'') s2)
    in isLiveStreaming s1 \<and> currentCall s1 = Defined ''CA-1'' \<and>
       isLiveStreaming s2 \<and> currentCall s2 = Defined ''CA-1'' \<and>
       \<not> isLiveStreaming s3 \<and> currentCall s3 = Null)"
proof -
  let ?started = "(bare ''call_started'')\<lparr>msg_callData := Defined ''CA-1''\<rparr>"
  let ?between = "[(''2024-05-01T10:00:01.000Z'', batch ''suggestions'' [sug ''s1'']),
                (''2024-05-01T10:00:02.000Z'', bare ''instant_suggestions'')]"
  have a: "msg_type ?started = ''call_started''" "\<not> truthy (msg_suggestions ?started)"
    by (simp_all add: bare_def)
  have b: "msg_type (bare ''call_ended'') = ''call_ended''"
     "\<not> truthy (msg_suggestions (bare ''call_ended''))"
    by (simp_all add: bare_def)
  have c: "\<forall>(now, message) \<in> set ?between. handled_as_suggestions message"
    by (simp add: handled_as_suggestions_def bare_def batch_def)
  have d: "msg_callData ?started = Defined ''CA-1''" by simp
  show ?thesis
    using call_started_then_call_ended [OF a b c, of 21 "''2024-05-01T10:00:00.000Z''"
        initial_state "''2024-05-01T10:00:03.000Z''"]
    unfolding d .
qed

text \<open>
  A \<open>call_started\<close> message that also carries a suggestions array, here the empty one,
  is taken by the first branch: the live flag stays off and the call context \<open>CA-1\<close> of
  the message is not stored.
\<close>

theorem call_started_with_payload_counterexample:
  "\<not> isLiveStreaming (fst (onMessage 21 ''2024-05-01T10:00:00.000Z''
        ((batch ''call_started'' [])\<lparr>msg_callData := Defined ''CA-1''\<rparr>) initial_state)) \<and>
   currentCall (fst (onMessage 21 ''2024-05-01T10:00:00.000Z''
        ((batch ''call_started'' [])\<lparr>msg_callData := Defined ''CA-1''\<rparr>) initial_state))
     \<noteq> Defined ''CA-1''"
  by (simp add: onMessage_def batch_def initial_state_def)

section \<open>Message dispatch\<close>

text \<open>
  Claim C5. Handling a message under the declared type \<open>instant_suggestions\<close> leaves the
  component in the same state (buffer and last-update marker included) and schedules
  the same scroll as handling it under the declared type \<open>suggestions\<close>; the effects can
  differ in console output only. When the message carries a suggestions payload even
  the console output is the same, since the first branch takes it under either type.
\<close>

theorem instant_suggestions_same_as_suggestions:
  "fst (onMessage cap now (message\<lparr>msg_type := ''instant_suggestions''\<rparr>) st) =
     fst (onMessage cap now (message\<lparr>msg_type := ''suggestions''\<rparr>) st) \<and>
   filter (\<lambda>e. \<not> is_console e)
       (snd (onMessage cap now (message\<lparr>msg_type := ''instant_suggestions''\<rparr>) st)) =
     filter (\<lambda>e. \<not> is_console e)
       (snd (onMessage cap now (message\<lparr>msg_type := ''suggestions''\<rparr>) st)) \<and>
   (truthy (msg_suggestions message) \<longrightarrow>
      onMessage cap now (message\<lparr>msg_type := ''instant_suggestions''\<rparr>) st =
        onMessage cap now (message\<lparr>msg_type := ''suggestions''\<rparr>) st)"
  by (simp add: onMessage_def Let_def)

text \<open>The theorem for a message that carries one suggestion, at the initial state.\<close>

theorem instant_suggestions_same_as_suggestions_witness:
  "truthy (msg_suggestions (batch ''x'' [sug ''s1''])) \<and>
   onMessage 21 ''2024-05-01T10:00:00.000Z''
       ((batch ''x'' [sug ''s1''])\<lparr>msg_type := ''instant_suggestions''\<rparr>) initial_state =
     onMessage 21 ''2024-05-01T10:00:00.000Z''
       ((batch ''x'' [sug ''s1''])\<lparr>msg_type := ''suggestions''\<rparr>) initial_state \<and>
   suggestions (fst (onMessage 21 ''2024-05-01T10:00:00.000Z''
       ((batch ''x'' [sug ''s1''])\<lparr>msg_type := ''instant_suggestions''\<rparr>) initial_state))
     = [sug ''s1'']"
proof -
  have p: "truthy (msg_suggestions (batch ''x'' [sug ''s1'']))"
    by (simp add: batch_def)
  note t = instant_suggestions_same_as_suggestions
    [of 21 "''2024-05-01T10:00:00.000Z''" "batch ''x'' [sug ''s1'']" initial_state]
  from t p have e: "onMessage 21 ''2024-05-01T10:00:00.000Z''
       ((batch ''x'' [sug ''s1''])\<lparr>msg_type := ''instant_suggestions''\<rparr>) initial_state =
     onMessage 21 ''2024-05-01T10:00:00.000Z''
       ((batch ''x'' [sug ''s1''])\<lparr>msg_type := ''suggestions''\<rparr>) initial_state"
    by blast
  have v: "suggestions (fst (onMessage 21 ''2024-05-01T10:00:00.000Z''
       ((batch ''x'' [sug ''s1''])\<lparr>msg_type := ''suggestions''\<rparr>) initial_state))
     = [sug ''s1'']"
    by (simp add: onMessage_def batch_def initial_state_def slice_def)
  from p e v show ?thesis by simp
qed

text \<open>
  Claim C7. A message whose declared type is none of \<open>suggestions\<close>,
  \<open>instant_suggestions\<close>, \<open>call_started\<close>, \<open>call_ended\<close> and \<open>transcript_chunk\<close>, and which
  carries no suggestions payload, leaves the whole state as it was; the handler only
  writes the line about the received message to the console. No branch of the handler
  raises, so the handler has a result for every message.
\<close>

theorem unrecognized_message_ignored:
  assumes "msg_type message \<notin> {''suggestions'', ''instant_suggestions'', ''call_started'',
             ''call_ended'', ''transcript_chunk''}"
    and "\<not> truthy (msg_suggestions message)"
  shows "onMessage cap now message st =
           (st, [ConsoleLog ''Live AI Suggestions received message:''])"
  using assms by (simp add: onMessage_def)

text \<open>The theorem for a message of type \<open>heartbeat\<close> during a call with one suggestion.\<close>

theorem unrecognized_message_ignored_witness:
  "onMessage 21 ''2024-05-01T10:00:00.000Z'' (bare ''heartbeat'')
      (initial_state\<lparr>suggestions := [sug ''s1''], isLiveStreaming := True\<rparr>) =
     (initial_state\<lparr>suggestions := [sug ''s1''], isLiveStreaming := True\<rparr>,
      [ConsoleLog ''Live AI Suggestions received message:''])"
proof -
  have a: "msg_type (bare ''heartbeat'') \<notin> {''suggestions'', ''instant_suggestions'',
      ''call_started'', ''call_ended'', ''transcript_chunk''}"
    by (simp add: bare_def)
  have b: "\<not> truthy (msg_suggestions (bare ''heartbeat''))"
    by (simp add: bare_def)
  show ?thesis by (rule unrecognized_message_ignored [OF a b])
qed

text \<open>
  Claim C9. A message that carries a suggestions array is handled by the first,
  appending branch whatever its declared type is: the result is the one for the
  declared type \<open>suggestions\<close>, the buffer gets the array appended and is trimmed, the
  marker is set, and the live flag and the call context stay as they were, also when
  the declared type is \<open>call_started\<close> or \<open>call_ended\<close>.
\<close>

theorem suggestions_payload_decides_branch:
  assumes "msg_suggestions message = Defined xs"
  shows "onMessage cap now message st =
           (st\<lparr>suggestions := slice (- cap) (suggestions st @ xs), lastUpdate := now\<rparr>,
            [ConsoleLog ''Live AI Suggestions received message:'', ScrollToBottomAfter 150]) \<and>
         onMessage cap now message st =
           onMessage cap now (message\<lparr>msg_type := ''suggestions''\<rparr>) st \<and>
         isLiveStreaming (fst (onMessage cap now message st)) = isLiveStreaming st \<and>
         currentCall (fst (onMessage cap now message st)) = currentCall st"
  using assms by (simp add: onMessage_def)

text \<open>
  The theorem for a \<open>call_started\<close> message with one suggestion and the call context
  \<open>CA-1\<close> at the initial state, and for a \<open>call_ended\<close> message with the empty array
  during a live call.
\<close>

theorem suggestions_payload_decides_branch_witness:
  "\<not> isLiveStreaming (fst (onMessage 21 ''2024-05-01T10:00:00.000Z''
        ((batch ''call_started'' [sug ''s1''])\<lparr>msg_callData := Defined ''CA-1''\<rparr>)
        initial_state)) \<and>
   currentCall (fst (onMessage 21 ''2024-05-01T10:00:00.000Z''
        ((batch ''call_started'' [sug ''s1''])\<lparr>msg_callData := Defined ''CA-1''\<rparr>)
        initial_state)) = Null \<and>
   isLiveStreaming (fst (onMessage 21 ''2024-05-01T10:00:00.000Z''
        (batch ''call_ended'' [])
        (initial_state\<lparr>isLiveStreaming := True, currentCall := Defined ''CA-1''\<rparr>))) \<and>
   currentCall (fst (onMessage 21 ''2024-05-01T10:00:00.000Z''
        (batch ''call_ended'' [])
        (initial_state\<lparr>isLiveStreaming := True, currentCall := Defined ''CA-1''\<rparr>)))
     = Defined ''CA-1''"
proof -
  let ?m1 = "(batch ''call_started'' [sug ''s1''])\<lparr>msg_callData := Defined ''CA-1''\<rparr>"
  have a: "msg_suggestions ?m1 = Defined [sug ''s1'']" by (simp add: batch_def)
  have b: "msg_suggestions (batch ''call_ended'' [] :: string WebSocketMessage) = Defined []"
    by (simp add: batch_def)
  show ?thesis
    using suggestions_payload_decides_branch [OF a, of 21 "''2024-05-01T10:00:00.000Z''"
        initial_state]
      suggestions_payload_decides_branch [OF b, of 21 "''2024-05-01T10:00:00.000Z''"
        "initial_state\<lparr>isLiveStreaming := True, currentCall := Defined ''CA-1''\<rparr>"]
    by (simp add: initial_state_def)
qed

text \<open>
  Claim C10, as the code has it. A message of type \<open>suggestions\<close> whose suggestions
  field is absent or the empty array sets the last-update marker to the clock reading
  taken while it is handled. The buffer is trimmed as after any append: under a cap of
  at least one its trailing \<^verbatim>\<open>maxSuggestions\<close> elements remain, and a buffer that holds
  at most \<^verbatim>\<open>maxSuggestions\<close> elements is unchanged.
\<close>

theorem empty_suggestions_message:
  assumes "msg_type message = ''suggestions''"
    and "\<not> truthy (msg_suggestions message) \<or> msg_suggestions message = Defined []"
  shows "lastUpdate (fst (onMessage cap now message st)) = now \<and>
         (0 < cap \<longrightarrow>
            suggestions (fst (onMessage cap now message st))
              = last_n (nat cap) (suggestions st)) \<and>
         (int (length (suggestions st)) \<le> cap \<longrightarrow>
            suggestions (fst (onMessage cap now message st)) = suggestions st)"
proof -
  have e: "or_empty (msg_suggestions message) = []"
    using assms(2) by (cases "msg_suggestions message") auto
  have s: "suggestions (fst (onMessage cap now message st)) = slice (- cap) (suggestions st)"
    and l: "lastUpdate (fst (onMessage cap now message st)) = now"
    using assms(1) by (simp_all add: onMessage_def e)
  have u: "slice (- cap) (suggestions st) = suggestions st"
    if "int (length (suggestions st)) \<le> cap"
  proof (cases "cap = 0")
    case True
    then show ?thesis by (simp add: slice_zero)
  next
    case False
    with that have "0 < cap" by arith
    with that show ?thesis by (simp add: slice_neg_last_n last_n_all)
  qed
  from s l u show ?thesis by (simp add: slice_neg_last_n)
qed

text \<open>
  The theorem under the default cap for a buffer of two suggestions and a message
  without a suggestions field.
\<close>

theorem empty_suggestions_message_witness:
  "lastUpdate (fst (onMessage 21 ''2024-05-01T10:00:05.000Z'' (bare ''suggestions'')
      (initial_state\<lparr>suggestions := [sug ''s1'', sug ''s2''],
          lastUpdate := ''2024-05-01T10:00:00.000Z''\<rparr>))) = ''2024-05-01T10:00:05.000Z'' \<and>
   suggestions (fst (onMessage 21 ''2024-05-01T10:00:05.000Z'' (bare ''suggestions'')
      (initial_state\<lparr>suggestions := [sug ''s1'', sug ''s2''],
          lastUpdate := ''2024-05-01T10:00:00.000Z''\<rparr>))) = [sug ''s1'', sug ''s2'']"
proof -
  let ?st = "initial_state\<lparr>suggestions := [sug ''s1'', sug ''s2''],
          lastUpdate := ''2024-05-01T10:00:00.000Z''\<rparr> :: string component_state"
  have a: "msg_type (bare ''suggestions'') = ''suggestions''" by (simp add: bare_def)
  have b: "\<not> truthy (msg_suggestions (bare ''suggestions''))
      \<or> msg_suggestions (bare ''suggestions'') = Defined []"
    by (simp add: bare_def)
  have c: "int (length (suggestions ?st)) \<le> 21" by simp
  have d: "suggestions ?st = [sug ''s1'', sug ''s2'']" by simp
  from empty_suggestions_message [OF a b, of 21 "''2024-05-01T10:00:05.000Z''" ?st] c
  have "lastUpdate (fst (onMessage 21 ''2024-05-01T10:00:05.000Z'' (bare ''suggestions'') ?st))
      = ''2024-05-01T10:00:05.000Z'' \<and>
    suggestions (fst (onMessage 21 ''2024-05-01T10:00:05.000Z'' (bare ''suggestions'') ?st))
      = suggestions ?st"
    by blast
  then show ?thesis unfolding d .
qed

text \<open>
  The buffer can hold more than the cap in force when such a message arrives, because
  the cap is a prop and the subscription is set up again when it changes. Two
  suggestions arrive under the cap 21; the cap is then 1, and a \<open>suggestions\<close> message
  without a suggestions field, or with the empty array, cuts the buffer down to the
  second suggestion.
\<close>

theorem empty_suggestions_trims_counterexample:
  "suggestions (fst (onMessage 21 ''2024-05-01T10:00:00.000Z''
       (batch ''suggestions'' [sug ''s1'', sug ''s2'']) initial_state))
     = [sug ''s1'', sug ''s2''] \<and>
   suggestions (fst (onMessage 1 ''2024-05-01T10:00:05.000Z'' (bare ''suggestions'')
      (fst (onMessage 21 ''2024-05-01T10:00:00.000Z''
         (batch ''suggestions'' [sug ''s1'', sug ''s2'']) initial_state)))) = [sug ''s2''] \<and>
   suggestions (fst (onMessage 1 ''2024-05-01T10:00:05.000Z'' (batch ''suggestions'' [])
      (fst (onMessage 21 ''2024-05-01T10:00:00.000Z''
         (batch ''suggestions'' [sug ''s1'', sug ''s2'']) initial_state)))) = [sug ''s2''] \<and>
   [sug ''s2''] \<noteq> [sug ''s1'', sug ''s2'']"
  by (simp add: onMessage_def batch_def bare_def initial_state_def slice_def)

section \<open>The use action\<close>

text \<open>
  Claim C8. The use action returns the state it was given, so the buffer, the marker,
  the call context, the live flag and the connection status are unchanged, and all it
  does outside the state is to write two lines to the console: nothing is sent to the
  transport or to any other system.
\<close>

theorem use_action_changes_nothing:
  "fst (handleSuggestionAction suggestion Use st) = st \<and>
   snd (handleSuggestionAction suggestion Use st) =
     [ConsoleLog ''Suggestion use:'', ConsoleLog ''Using suggestion:''] \<and>
   filter (\<lambda>e. \<not> is_console e) (snd (handleSuggestionAction suggestion Use st)) = []"
  by (simp add: handleSuggestionAction_def)

end
